theory Spec2Isabelle
  imports Main "HOL-Library.Word" "HOL-Library.Char_ord" "HOL-Library.List_Lexorder"
begin

unbundle bit_operations_syntax

section \<open>Go values shared by both services\<close>

text \<open>
  The repository holds two small HTTP services, \<^verbatim>\<open>service-a/main.go\<close> (upstream, serves
  \<^verbatim>\<open>/greet\<close> behind an authentication middleware) and \<^verbatim>\<open>service-b/main.go\<close> (downstream,
  serves \<^verbatim>\<open>/process\<close> by calling \<^verbatim>\<open>/greet\<close>). A Go \<^verbatim>\<open>string\<close> is a sequence of bytes and
  \<^verbatim>\<open>len\<close> counts bytes; it is modelled as a \<^typ>\<open>string\<close>, whose characters are bytes.

  A handler is a function from the inbound request and a state (the response writer, the
  log, the outbound requests made) to an outcome (it returned, or it panicked) and the
  state it leaves. What a handler takes from outside (the generated id, the clock, the
  upstream's answer) is a parameter. The standard library is modelled by its documented
  behaviour, as far as the handlers use it. Left out: the routing of paths to handlers by
  the multiplexer, the start and the graceful shutdown of the listener, the closing of
  the upstream response body, and the lines that \<^verbatim>\<open>main\<close> logs about defaults.
\<close>

subsection \<open>maskAuthKey (service-a/main.go:105, service-b/main.go:266)\<close>

text \<open>
  The two services define the same function, character for character:
  \<^verbatim>\<open>
  func maskAuthKey(key string) string {
      if len(key) > 4 {
          return key[:2] + "****" + key[len(key)-2:]
      }
      return "****"
  }
  \<close>
  The slices \<^verbatim>\<open>key[:2]\<close> and \<^verbatim>\<open>key[len(key)-2:]\<close> are in range whenever the guard holds.
\<close>

definition maskAuthKey :: "string \<Rightarrow> string" where
  "maskAuthKey key =
     (if length key > 4
      then take 2 key @ ''****'' @ drop (length key - 2) key
      else ''****'')"

subsection \<open>Library primitives: constant-time comparison\<close>

text \<open>
  \<^verbatim>\<open>subtle.ConstantTimeCompare\<close> of the Go standard library, as the library documents and
  implements it: 0 at once when the lengths differ, otherwise the bitwise OR of the XOR of
  every pair of bytes, turned into 1 (all equal) or 0 by \<^verbatim>\<open>ConstantTimeByteEq\<close>:
  \<^verbatim>\<open>
  func ConstantTimeByteEq(x, y uint8) int { return int((uint32(x^y) - 1) >> 31) }
  func ConstantTimeCompare(x, y []byte) int {
      if len(x) != len(y) { return 0 }
      var v byte
      for i := 0; i < len(x); i++ { v |= x[i] ^ y[i] }
      return ConstantTimeByteEq(v, 0)
  }
  \<close>
\<close>

type_synonym byte = "8 word"

definition bytes_of :: "string \<Rightarrow> byte list" where
  "bytes_of s = map of_char s"

definition ConstantTimeByteEq :: "byte \<Rightarrow> byte \<Rightarrow> int" where
  "ConstantTimeByteEq x y = uint (drop_bit 31 ((ucast (x XOR y) :: 32 word) - 1))"

fun xor_fold :: "byte \<Rightarrow> byte list \<Rightarrow> byte list \<Rightarrow> byte" where
  "xor_fold v (a # x) (b # y) = xor_fold (v OR (a XOR b)) x y"
| "xor_fold v _ _ = v"

definition ConstantTimeCompare :: "byte list \<Rightarrow> byte list \<Rightarrow> int" where
  "ConstantTimeCompare x y =
     (if length x \<noteq> length y then 0 else ConstantTimeByteEq (xor_fold 0 x y) 0)"

subsection \<open>Library primitives: HTTP headers\<close>

text \<open>
  \<^verbatim>\<open>http.Header\<close> is a \<^verbatim>\<open>map[string][]string\<close>. \<^verbatim>\<open>Get\<close> and \<^verbatim>\<open>Set\<close> first bring the key
  into canonical form (\<^verbatim>\<open>textproto.CanonicalMIMEHeaderKey\<close>): a key made of token bytes
  only gets an upper-case letter at its start and after every hyphen and lower-case
  letters elsewhere; any other key is left as it is. The server stores the headers of an
  inbound request under their canonical keys.
\<close>

type_synonym Header = "string \<rightharpoonup> string list"

definition validHeaderFieldByte :: "char \<Rightarrow> bool" where
  "validHeaderFieldByte c =
     (let n = (of_char c :: nat) in
        (97 \<le> n \<and> n \<le> 122) \<or> (65 \<le> n \<and> n \<le> 90) \<or> (48 \<le> n \<and> n \<le> 57) \<or>
        n \<in> {33, 35, 36, 37, 38, 39, 42, 43, 45, 46, 94, 95, 96, 124, 126})"

fun canonicalise :: "bool \<Rightarrow> string \<Rightarrow> string" where
  "canonicalise upper [] = []"
| "canonicalise upper (c # cs) =
     (let n = (of_char c :: nat);
          c' = (if upper \<and> 97 \<le> n \<and> n \<le> 122 then char_of (n - 32)
                else if \<not> upper \<and> 65 \<le> n \<and> n \<le> 90 then char_of (n + 32)
                else c)
      in c' # canonicalise (c' = CHR ''-'') cs)"

definition CanonicalMIMEHeaderKey :: "string \<Rightarrow> string" where
  "CanonicalMIMEHeaderKey s =
     (if list_all validHeaderFieldByte s then canonicalise True s else s)"

definition Header_Get :: "Header \<Rightarrow> string \<Rightarrow> string" where
  "Header_Get h key =
     (case h (CanonicalMIMEHeaderKey key) of
        None \<Rightarrow> ''''
      | Some [] \<Rightarrow> ''''
      | Some (v # _) \<Rightarrow> v)"

definition Header_Set :: "Header \<Rightarrow> string \<Rightarrow> string \<Rightarrow> Header" where
  "Header_Set h key v = h(CanonicalMIMEHeaderKey key \<mapsto> [v])"

subsection \<open>Library primitives: request context and type assertion\<close>

text \<open>
  A \<^verbatim>\<open>context.Context\<close> is read here only under string keys (\<^verbatim>\<open>"request_id"\<close>), so it is a
  map from string keys to interface values; \<^verbatim>\<open>Value\<close> of an absent key is \<^verbatim>\<open>nil\<close>
  (\<open>None\<close>). The keys that the HTTP server itself puts into the context of an inbound
  request are of private non-string types, so the context of a request as the server
  hands it over, \<open>serverContext\<close>, has no string key at all (\<^verbatim>\<open>NewServer\<close> in both
  services sets neither \<^verbatim>\<open>BaseContext\<close> nor \<^verbatim>\<open>ConnContext\<close>).
  The unchecked assertion \<^verbatim>\<open>v.(string)\<close> panics unless \<^verbatim>\<open>v\<close> holds a string.
\<close>

datatype iface = IString string | IOther

type_synonym Context = "string \<rightharpoonup> iface"

definition serverContext :: Context where
  "serverContext = Map.empty"

definition WithValue :: "Context \<Rightarrow> string \<Rightarrow> iface \<Rightarrow> Context" where
  "WithValue ctx key val = ctx(key \<mapsto> val)"

definition Value :: "Context \<Rightarrow> string \<Rightarrow> iface option" where
  "Value ctx key = ctx key"

datatype panic = InterfaceConversion "iface option" | InvalidWriteHeaderCode int

datatype outcome = Returned | Panicked panic

definition assert_string :: "iface option \<Rightarrow> panic + string" where
  "assert_string v = (case v of Some (IString s) \<Rightarrow> Inr s | _ \<Rightarrow> Inl (InterfaceConversion v))"

subsection \<open>Library primitives: requests, the response writer, the logger\<close>

type_synonym Time = int

record Request =
  Method :: string
  URL_Path :: string
  Header :: Header
  RemoteAddr :: string
  Ctx :: Context

text \<open>
  What a handler hands to \<^verbatim>\<open>http.ResponseWriter\<close>. A JSON document written by
  \<^verbatim>\<open>json.NewEncoder(w).Encode\<close> is kept as its list of fields (in the order the encoder
  emits them: declaration order for a struct, sorted keys for a map), a line written by
  \<^verbatim>\<open>fmt.Fprintln\<close> as its text.
\<close>

datatype jvalue = JString string | JTime Time

datatype BodyPart = JSON "(string \<times> jvalue) list" | Text string

text \<open>
  The writer: \<open>header\<close> is the map \<^verbatim>\<open>w.Header()\<close>; \<open>committed\<close> is the status line and
  the headers as sent, fixed by the first \<^verbatim>\<open>WriteHeader\<close> with a final status or by the
  first \<^verbatim>\<open>Write\<close>; \<open>written\<close> is the body; \<open>writeErr\<close> is the error that \<^verbatim>\<open>Write\<close>
  returns on this connection, if it fails. \<^verbatim>\<open>WriteHeader\<close> panics on a code outside
  100..999, sends a 1xx code other than 101 as an informational response without
  committing, and is ignored once the response is committed. \<^verbatim>\<open>Write\<close> commits status 200
  if nothing is committed yet and refuses a body (\<^verbatim>\<open>ErrBodyNotAllowed\<close>) under a status
  1xx, 204 or 304. The values that the handlers encode (strings and a current time)
  always marshal, so \<^verbatim>\<open>Encode\<close> fails only when \<^verbatim>\<open>Write\<close> does. A handler that panics
  is recovered by the server, which then drops the connection; for a \<^verbatim>\<open>HEAD\<close> request the
  server discards the body that the handler writes.
\<close>

record ResponseWriter =
  header :: Header
  informational :: "(int \<times> Header) list"
  committed :: "(int \<times> Header) option"
  written :: "BodyPart list"
  writeErr :: "string option"

definition newResponseWriter :: "string option \<Rightarrow> ResponseWriter" where
  "newResponseWriter we =
     \<lparr>header = Map.empty, informational = [], committed = None, written = [], writeErr = we\<rparr>"

definition WriteHeader :: "int \<Rightarrow> ResponseWriter \<Rightarrow> panic + ResponseWriter" where
  "WriteHeader code w =
     (if committed w \<noteq> None then Inr w
      else if code < 100 \<or> code > 999 then Inl (InvalidWriteHeaderCode code)
      else if 100 \<le> code \<and> code \<le> 199 \<and> code \<noteq> 101
      then Inr (w\<lparr>informational := informational w @ [(code, header w)]\<rparr>)
      else Inr (w\<lparr>committed := Some (code, header w)\<rparr>))"

definition bodyAllowedForStatus :: "int \<Rightarrow> bool" where
  "bodyAllowedForStatus code =
     (if 100 \<le> code \<and> code \<le> 199 then False
      else if code = 204 then False
      else if code = 304 then False
      else True)"

definition Write :: "BodyPart \<Rightarrow> ResponseWriter \<Rightarrow> string option \<times> ResponseWriter" where
  "Write p w =
     (case (case committed w of
              None \<Rightarrow> (200, w\<lparr>committed := Some (200, header w)\<rparr>)
            | Some (code, _) \<Rightarrow> (code, w)) of
        (code, w) \<Rightarrow>
          if \<not> bodyAllowedForStatus code
          then (Some ''http: request method or response status code does not allow body'', w)
          else (case writeErr w of
                  Some e \<Rightarrow> (Some e, w)
                | None \<Rightarrow> (None, w\<lparr>written := written w @ [p]\<rparr>)))"

text \<open>
  \<^verbatim>\<open>http.Error\<close> (Go 1.21, the version the Dockerfiles build with):
  \<^verbatim>\<open>
  func Error(w ResponseWriter, error string, code int) {
      w.Header().Set("Content-Type", "text/plain; charset=utf-8")
      w.Header().Set("X-Content-Type-Options", "nosniff")
      w.WriteHeader(code)
      fmt.Fprintln(w, error)
  }
  \<close>
\<close>

definition http_Error :: "string \<Rightarrow> int \<Rightarrow> ResponseWriter \<Rightarrow> panic + ResponseWriter" where
  "http_Error error code w =
     (let w = w\<lparr>header := Header_Set (header w) ''Content-Type'' ''text/plain; charset=utf-8''\<rparr>;
          w = w\<lparr>header := Header_Set (header w) ''X-Content-Type-Options'' ''nosniff''\<rparr>
      in case WriteHeader code w of
           Inl p \<Rightarrow> Inl p
         | Inr w \<Rightarrow> Inr (snd (Write (Text (error @ [CHR 0x0A])) w)))"

text \<open>
  Structured logging: a line has a level, a message and attributes. The logger of a
  server drops every line below the configured level (\<^verbatim>\<open>HandlerOptions{Level: config.LogLevel}\<close>).
\<close>

datatype Attr =
    slog_String string string
  | slog_Int string int
  | slog_Duration string int
  | slog_Bool string bool

datatype LogLine = LogLine int string "Attr list"

definition LevelInfo :: int where "LevelInfo = 0"
definition LevelWarn :: int where "LevelWarn = 4"
definition LevelError :: int where "LevelError = 8"

record Config =
  Port :: string
  LogLevel :: int

text \<open>
  An outbound request as \<^verbatim>\<open>http.NewRequestWithContext\<close> builds it and the handler
  completes it, and the state a handler works on: the response writer, the log lines
  emitted so far, and the outbound requests dispatched so far.
\<close>

record OutRequest =
  out_Method :: string
  out_URL :: string
  out_Header :: Header
  out_Ctx :: Context

record St =
  rw :: ResponseWriter
  logs :: "LogLine list"
  calls :: "OutRequest list"

definition newSt :: "string option \<Rightarrow> St" where
  "newSt we = \<lparr>rw = newResponseWriter we, logs = [], calls = []\<rparr>"

type_synonym Handler = "Request \<Rightarrow> St \<Rightarrow> outcome \<times> St"

definition Log :: "'c Config_scheme \<Rightarrow> int \<Rightarrow> string \<Rightarrow> Attr list \<Rightarrow> St \<Rightarrow> St" where
  "Log config lvl m as st =
     (if LogLevel config \<le> lvl then st\<lparr>logs := logs st @ [LogLine lvl m as]\<rparr> else st)"

text \<open>
  What a handler takes from outside during one request: the string that
  \<^verbatim>\<open>uuid.New().String()\<close> returns, the successive readings of \<^verbatim>\<open>time.Now()\<close> (numbered in the
  order the handler takes them), and the library's RFC 3339 formatting of a time.
\<close>

record Env =
  uuid_New :: string
  time_Now :: "nat \<Rightarrow> Time"
  Format_RFC3339 :: "Time \<Rightarrow> string"

section \<open>Service A (service-a/main.go)\<close>

record Config_A = Config +
  AuthKey :: string

record Response =
  Message :: string
  RequestID :: string
  Timestamp :: Time

text \<open>The JSON tags of \<^verbatim>\<open>Response\<close>: \<^verbatim>\<open>message\<close>, \<^verbatim>\<open>request_id\<close>, \<^verbatim>\<open>timestamp\<close>.\<close>

definition Encode_Response :: "Response \<Rightarrow> BodyPart" where
  "Encode_Response v =
     JSON [(''message'', JString (Message v)),
           (''request_id'', JString (RequestID v)),
           (''timestamp'', JTime (Timestamp v))]"

text \<open>\<^verbatim>\<open>main\<close>, lines 224-244: the configuration read from the environment, with defaults.\<close>

definition main_Config_A :: "(string \<Rightarrow> string) \<Rightarrow> Config_A" where
  "main_Config_A getenv =
     (let config = \<lparr>Port = getenv ''PORT'', LogLevel = LevelInfo, AuthKey = getenv ''AUTH_KEY''\<rparr>;
          config = (if Port config = '''' then config\<lparr>Port := ''8080''\<rparr> else config);
          config = (if AuthKey config = '''' then config\<lparr>AuthKey := ''default-secret-key''\<rparr>
                    else config)
      in config)"

text \<open>\<^verbatim>\<open>authMiddleware\<close>, lines 62-102.\<close>

definition authMiddleware :: "Config_A \<Rightarrow> 'e Env_scheme \<Rightarrow> Handler \<Rightarrow> Handler" where
  "authMiddleware config env next r st =
     (let requestID = uuid_New env;
          ctx = WithValue (Ctx r) ''request_id'' (IString requestID);
          r = r\<lparr>Ctx := ctx\<rparr>;
          authKey = Header_Get (Header r) ''X-Auth-Key'';
          clientIP = RemoteAddr r;
          st = Log config LevelInfo ''Authentication attempt''
                 [slog_String ''request_id'' requestID,
                  slog_String ''client_ip'' clientIP,
                  slog_String ''method'' (Method r),
                  slog_String ''path'' (URL_Path r)] st
      in if ConstantTimeCompare (bytes_of authKey) (bytes_of (AuthKey config)) \<noteq> 1
         then
           (let st = Log config LevelWarn ''Authentication failed''
                       [slog_String ''request_id'' requestID,
                        slog_String ''client_ip'' clientIP,
                        slog_String ''method'' (Method r),
                        slog_String ''path'' (URL_Path r),
                        slog_String ''auth_key_provided'' (maskAuthKey authKey)] st
            in case http_Error ''Unauthorized'' 401 (rw st) of
                 Inl p \<Rightarrow> (Panicked p, st)
               | Inr w \<Rightarrow> (Returned, st\<lparr>rw := w\<rparr>))
         else
           (let st = Log config LevelInfo ''Authentication successful''
                       [slog_String ''request_id'' requestID,
                        slog_String ''client_ip'' clientIP,
                        slog_String ''method'' (Method r),
                        slog_String ''path'' (URL_Path r)] st
            in next r st))"

text \<open>
  \<^verbatim>\<open>handleGreet\<close>, lines 112-154. The readings of the clock: the response's timestamp,
  \<^verbatim>\<open>startTime\<close>, and the one inside \<^verbatim>\<open>time.Since\<close>.
\<close>

definition handleGreet :: "'c Config_scheme \<Rightarrow> 'e Env_scheme \<Rightarrow> Handler" where
  "handleGreet config env r st =
     (case assert_string (Value (Ctx r) ''request_id'') of
        Inl p \<Rightarrow> (Panicked p, st)
      | Inr requestID \<Rightarrow>
         (let clientIP = RemoteAddr r;
              st = Log config LevelInfo ''Processing greeting request''
                     [slog_String ''request_id'' requestID,
                      slog_String ''client_ip'' clientIP,
                      slog_String ''method'' (Method r),
                      slog_String ''path'' (URL_Path r)] st;
              response = \<lparr>Message = ''Hello from Service A!'', RequestID = requestID,
                          Timestamp = time_Now env 0\<rparr>;
              w = rw st;
              w = w\<lparr>header := Header_Set (header w) ''Content-Type'' ''application/json''\<rparr>;
              w = w\<lparr>header := Header_Set (header w) ''X-Request-ID'' requestID\<rparr>
          in case WriteHeader 200 w of
               Inl p \<Rightarrow> (Panicked p, st\<lparr>rw := w\<rparr>)
             | Inr w \<Rightarrow>
                (let startTime = time_Now env 1
                 in case Write (Encode_Response response) w of
                      (Some err, w) \<Rightarrow>
                        (let st = Log config LevelError ''Failed to encode response''
                                    [slog_String ''error'' err,
                                     slog_String ''request_id'' requestID,
                                     slog_String ''client_ip'' clientIP,
                                     slog_Duration ''processing_time'' (time_Now env 2 - startTime)]
                                    (st\<lparr>rw := w\<rparr>)
                         in case http_Error ''Internal Server Error'' 500 (rw st) of
                              Inl p \<Rightarrow> (Panicked p, st)
                            | Inr w \<Rightarrow> (Returned, st\<lparr>rw := w\<rparr>))
                    | (None, w) \<Rightarrow>
                        (Returned,
                         Log config LevelInfo ''Greeting request processed successfully''
                           [slog_String ''request_id'' requestID,
                            slog_String ''client_ip'' clientIP,
                            slog_Duration ''processing_time'' (time_Now env 2 - startTime),
                            slog_String ''response_message'' (Message response)]
                           (st\<lparr>rw := w\<rparr>)))))"

text \<open>\<^verbatim>\<open>NewServer\<close>, line 56: \<^verbatim>\<open>mux.HandleFunc("/greet", s.authMiddleware(s.handleGreet))\<close>.\<close>

definition greet :: "Config_A \<Rightarrow> 'e Env_scheme \<Rightarrow> Handler" where
  "greet config env = authMiddleware config env (handleGreet config env)"

section \<open>The health handler (service-a/main.go:156, service-b/main.go:197)\<close>

text \<open>
  \<^verbatim>\<open>handleHealth\<close> is the same text in both services; it reads only the port and the log
  level of the configuration. The status is a \<^verbatim>\<open>map[string]string\<close>, which the encoder
  writes with its keys sorted. The readings of the clock: \<^verbatim>\<open>startTime\<close>, the timestamp,
  and the one inside \<^verbatim>\<open>time.Since\<close>. The result of \<^verbatim>\<open>Encode\<close> is discarded.
\<close>

definition Encode_status :: "(string \<times> string) list \<Rightarrow> BodyPart" where
  "Encode_status m = JSON (map (\<lambda>(k, v). (k, JString v)) (sort_key fst m))"

definition handleHealth :: "'c Config_scheme \<Rightarrow> 'e Env_scheme \<Rightarrow> Handler" where
  "handleHealth config env r st =
     (let requestID = uuid_New env;
          startTime = time_Now env 0;
          st = Log config LevelInfo ''Health check received''
                 [slog_String ''request_id'' requestID,
                  slog_String ''client_ip'' (RemoteAddr r),
                  slog_String ''method'' (Method r),
                  slog_String ''path'' (URL_Path r)] st;
          status = [(''status'', ''healthy''),
                    (''timestamp'', Format_RFC3339 env (time_Now env 1)),
                    (''request_id'', requestID),
                    (''server_port'', Port config)];
          w = rw st;
          w = w\<lparr>header := Header_Set (header w) ''Content-Type'' ''application/json''\<rparr>
      in case WriteHeader 200 w of
           Inl p \<Rightarrow> (Panicked p, st\<lparr>rw := w\<rparr>)
         | Inr w \<Rightarrow>
            (let w = snd (Write (Encode_status status) w)
             in (Returned,
                 Log config LevelInfo ''Health check completed''
                   [slog_String ''request_id'' requestID,
                    slog_Duration ''processing_time'' (time_Now env 2 - startTime)]
                   (st\<lparr>rw := w\<rparr>))))"

section \<open>Service B (service-b/main.go)\<close>

record Config_B = Config +
  ServiceAURL :: string
  ServiceAAuthKey :: string

text \<open>
  \<^verbatim>\<open>ServiceAResponse\<close> has the fields and JSON tags of service A's \<^verbatim>\<open>Response\<close>; service
  B's own \<^verbatim>\<open>Response\<close> is the combined one.
\<close>

type_synonym ServiceAResponse = Response

record Response_B =
  ServiceAMessage :: string
  ServiceBMessage :: string
  RequestID_B :: string
  Timestamp_B :: Time

definition Encode_Response_B :: "Response_B \<Rightarrow> BodyPart" where
  "Encode_Response_B v =
     JSON [(''service_a_message'', JString (ServiceAMessage v)),
           (''service_b_message'', JString (ServiceBMessage v)),
           (''request_id'', JString (RequestID_B v)),
           (''timestamp'', JTime (Timestamp_B v))]"

text \<open>
  The upstream side of one \<^verbatim>\<open>/process\<close> request, beyond \<open>Env\<close>: whether
  \<^verbatim>\<open>http.NewRequestWithContext\<close> rejects the URL (with which error), what \<^verbatim>\<open>s.client.Do\<close>
  returns for the request (an error, or a response with its status code and what
  \<^verbatim>\<open>io.ReadAll\<close> gets from its body: an error or the bytes), and the library's
  \<^verbatim>\<open>json.Unmarshal\<close> into a \<^verbatim>\<open>ServiceAResponse\<close> (an error or the decoded value).
\<close>

record UpstreamResponse =
  StatusCode :: int
  Body :: "string + string"

record Env_B = Env +
  NewRequest_err :: "string \<Rightarrow> string option"
  client_Do :: "OutRequest \<Rightarrow> string + UpstreamResponse"
  Unmarshal :: "string \<Rightarrow> string + ServiceAResponse"

text \<open>\<^verbatim>\<open>main\<close>, lines 274-303.\<close>

definition main_Config_B :: "(string \<Rightarrow> string) \<Rightarrow> Config_B" where
  "main_Config_B getenv =
     (let config = \<lparr>Port = getenv ''PORT'', LogLevel = LevelInfo,
                     ServiceAURL = getenv ''SERVICE_A_URL'',
                     ServiceAAuthKey = getenv ''SERVICE_A_AUTH_KEY''\<rparr>;
          config = (if Port config = '''' then config\<lparr>Port := ''8081''\<rparr> else config);
          config = (if ServiceAURL config = ''''
                    then config\<lparr>ServiceAURL := ''http://service-a:8080''\<rparr> else config);
          config = (if ServiceAAuthKey config = ''''
                    then config\<lparr>ServiceAAuthKey := ''default-secret-key''\<rparr> else config)
      in config)"

text \<open>
  \<^verbatim>\<open>handleError\<close>, lines 180-195. The request id is read from the context of the request
  it is given, by an unchecked assertion, before anything is logged or written.
\<close>

definition handleError ::
  "'c Config_scheme \<Rightarrow> Request \<Rightarrow> string \<Rightarrow> string \<Rightarrow> int \<Rightarrow> St \<Rightarrow> outcome \<times> St" where
  "handleError config r err logMessage statusCode st =
     (case assert_string (Value (Ctx r) ''request_id'') of
        Inl p \<Rightarrow> (Panicked p, st)
      | Inr requestID \<Rightarrow>
         (let clientIP = RemoteAddr r;
              st = Log config LevelError logMessage
                     [slog_String ''error'' err,
                      slog_String ''request_id'' requestID,
                      slog_String ''client_ip'' clientIP,
                      slog_String ''method'' (Method r),
                      slog_String ''path'' (URL_Path r),
                      slog_Int ''status_code'' statusCode] st
          in case http_Error logMessage statusCode (rw st) of
               Inl p \<Rightarrow> (Panicked p, st)
             | Inr w \<Rightarrow> (Returned, st\<lparr>rw := w\<rparr>)))"

text \<open>
  \<^verbatim>\<open>fmt.Errorf("service A returned status %d", resp.StatusCode)\<close>: the decimal digits of
  the status code.
\<close>

fun digits :: "nat \<Rightarrow> string" where
  "digits n = (if n < 10 then [char_of (48 + n)] else digits (n div 10) @ [char_of (48 + n mod 10)])"

definition Sprint_d :: "int \<Rightarrow> string" where
  "Sprint_d i = (if i < 0 then CHR ''-'' # digits (nat (- i)) else digits (nat i))"

text \<open>
  \<^verbatim>\<open>handleProcess\<close>, lines 75-178. The context \<^verbatim>\<open>ctx\<close> that carries the request id goes
  into the outbound request only; \<^verbatim>\<open>handleError\<close> is given the inbound request \<^verbatim>\<open>r\<close>
  itself. The readings of the clock: \<^verbatim>\<open>startTime\<close>, the response's timestamp, and the
  one inside \<^verbatim>\<open>time.Since\<close>.
\<close>

definition handleProcess :: "Config_B \<Rightarrow> Env_B \<Rightarrow> Handler" where
  "handleProcess config env r st =
     (let requestID = uuid_New env;
          ctx = WithValue (Ctx r) ''request_id'' (IString requestID);
          clientIP = RemoteAddr r;
          st = Log config LevelInfo ''Processing service interaction request''
                 [slog_String ''request_id'' requestID,
                  slog_String ''client_ip'' clientIP,
                  slog_String ''method'' (Method r),
                  slog_String ''path'' (URL_Path r)] st;
          startTime = time_Now env 0;
          url = ServiceAURL config @ ''/greet''
      in case NewRequest_err env url of
           Some err \<Rightarrow>
             handleError config r err ''Failed to create request to Service A'' 500 st
         | None \<Rightarrow>
            (let req = \<lparr>out_Method = ''GET'', out_URL = url, out_Header = Map.empty, out_Ctx = ctx\<rparr>;
                 req = req\<lparr>out_Header :=
                         Header_Set (out_Header req) ''X-Auth-Key'' (ServiceAAuthKey config)\<rparr>;
                 req = req\<lparr>out_Header := Header_Set (out_Header req) ''X-Request-ID'' requestID\<rparr>;
                 st = Log config LevelInfo ''Calling Service A''
                        [slog_String ''request_id'' requestID,
                         slog_String ''service_a_url'' (ServiceAURL config),
                         slog_String ''auth_key_masked'' (maskAuthKey (ServiceAAuthKey config))] st;
                 st = st\<lparr>calls := calls st @ [req]\<rparr>
             in case client_Do env req of
                  Inl err \<Rightarrow> handleError config r err ''Failed to call Service A'' 503 st
                | Inr resp \<Rightarrow>
                   (let st = Log config LevelInfo ''Received response from Service A''
                               [slog_String ''request_id'' requestID,
                                slog_Int ''status_code'' (StatusCode resp)] st
                    in if StatusCode resp \<noteq> 200
                       then handleError config r
                              (''service A returned status '' @ Sprint_d (StatusCode resp))
                              ''Service A request failed'' (StatusCode resp) st
                       else
                         (case Body resp of
                            Inl err \<Rightarrow>
                              handleError config r err ''Failed to read Service A response'' 500 st
                          | Inr body \<Rightarrow>
                             (case Unmarshal env body of
                                Inl err \<Rightarrow>
                                  handleError config r err
                                    ''Failed to parse Service A response'' 500 st
                              | Inr serviceAResp \<Rightarrow>
                                 (let response =
                                        \<lparr>ServiceAMessage = Message serviceAResp,
                                         ServiceBMessage = ''Hello from Service B!'',
                                         RequestID_B = requestID,
                                         Timestamp_B = time_Now env 1\<rparr>;
                                      w = rw st;
                                      w = w\<lparr>header := Header_Set (header w) ''Content-Type''
                                                          ''application/json''\<rparr>;
                                      w = w\<lparr>header := Header_Set (header w) ''X-Request-ID''
                                                          requestID\<rparr>
                                  in case WriteHeader 200 w of
                                       Inl p \<Rightarrow> (Panicked p, st\<lparr>rw := w\<rparr>)
                                     | Inr w \<Rightarrow>
                                        (let st = Log config LevelInfo ''Preparing response''
                                                    [slog_String ''request_id'' requestID,
                                                     slog_String ''service_a_message''
                                                       (Message serviceAResp),
                                                     slog_String ''service_b_message''
                                                       (ServiceBMessage response)]
                                                    (st\<lparr>rw := w\<rparr>)
                                         in case Write (Encode_Response_B response) (rw st) of
                                              (Some err, w) \<Rightarrow>
                                                (let st = Log config LevelError
                                                            ''Failed to encode response''
                                                            [slog_String ''error'' err,
                                                             slog_String ''request_id'' requestID,
                                                             slog_String ''client_ip'' clientIP,
                                                             slog_Duration ''processing_time''
                                                               (time_Now env 2 - startTime)]
                                                            (st\<lparr>rw := w\<rparr>)
                                                 in case http_Error ''Internal Server Error'' 500
                                                           (rw st) of
                                                      Inl p \<Rightarrow> (Panicked p, st)
                                                    | Inr w \<Rightarrow> (Returned, st\<lparr>rw := w\<rparr>))
                                            | (None, w) \<Rightarrow>
                                                (Returned,
                                                 Log config LevelInfo
                                                   ''Process request completed successfully''
                                                   [slog_String ''request_id'' requestID,
                                                    slog_String ''client_ip'' clientIP,
                                                    slog_String ''service_a_request_id''
                                                      (RequestID serviceAResp),
                                                    slog_Duration ''processing_time''
                                                      (time_Now env 2 - startTime)]
                                                   (st\<lparr>rw := w\<rparr>)))))))))"

section \<open>Observing a response\<close>

text \<open>
  What a client sees of a finished request: the status line, a header as sent, the body;
  and what the log shows: the \<^verbatim>\<open>request_id\<close> attributes of a line.
\<close>

definition status :: "St \<Rightarrow> int option" where
  "status st = map_option fst (committed (rw st))"

definition response_header :: "St \<Rightarrow> string \<Rightarrow> string list option" where
  "response_header st key =
     (case committed (rw st) of
        None \<Rightarrow> None
      | Some (_, h) \<Rightarrow> h (CanonicalMIMEHeaderKey key))"

definition body :: "St \<Rightarrow> BodyPart list" where
  "body st = written (rw st)"

fun field :: "BodyPart \<Rightarrow> string \<Rightarrow> jvalue option" where
  "field (JSON fs) k = map_of fs k"
| "field (Text _) k = None"

fun is_JSON :: "BodyPart \<Rightarrow> bool" where
  "is_JSON (JSON _) = True"
| "is_JSON (Text _) = False"

fun attr_request_ids :: "Attr list \<Rightarrow> string list" where
  "attr_request_ids [] = []"
| "attr_request_ids (slog_String k v # as) =
     (if k = ''request_id'' then v # attr_request_ids as else attr_request_ids as)"
| "attr_request_ids (_ # as) = attr_request_ids as"

fun line_request_ids :: "LogLine \<Rightarrow> string list" where
  "line_request_ids (LogLine _ _ as) = attr_request_ids as"

fun line_message :: "LogLine \<Rightarrow> string" where
  "line_message (LogLine _ m _) = m"

definition logs_carry :: "string \<Rightarrow> St \<Rightarrow> bool" where
  "logs_carry requestID st \<longleftrightarrow> (\<forall>l \<in> set (logs st). line_request_ids l = [requestID])"

text \<open>
  The outbound request that \<^verbatim>\<open>handleProcess\<close> dispatches (lines 91-97), and the outcome of
  the outbound call in the terms of the specification's Outbound Call Error: which stage
  failed (request construction, network dispatch, non-success status code, body read,
  body decode), or the decoded greeting.
\<close>

definition outbound_request :: "Config_B \<Rightarrow> Env_B \<Rightarrow> Request \<Rightarrow> OutRequest" where
  "outbound_request config env r =
     \<lparr>out_Method = ''GET'',
      out_URL = ServiceAURL config @ ''/greet'',
      out_Header =
        Header_Set (Header_Set Map.empty ''X-Auth-Key'' (ServiceAAuthKey config))
          ''X-Request-ID'' (uuid_New env),
      out_Ctx = WithValue (Ctx r) ''request_id'' (IString (uuid_New env))\<rparr>"

datatype OutboundCallError =
    RequestConstruction string
  | NetworkDispatch string
  | NonSuccessStatus int
  | BodyRead string
  | BodyDecode string

definition outbound_call :: "Config_B \<Rightarrow> Env_B \<Rightarrow> Request \<Rightarrow> OutboundCallError + ServiceAResponse" where
  "outbound_call config env r =
     (case NewRequest_err env (ServiceAURL config @ ''/greet'') of
        Some e \<Rightarrow> Inl (RequestConstruction e)
      | None \<Rightarrow>
         (case client_Do env (outbound_request config env r) of
            Inl e \<Rightarrow> Inl (NetworkDispatch e)
          | Inr resp \<Rightarrow>
             if StatusCode resp \<noteq> 200 then Inl (NonSuccessStatus (StatusCode resp))
             else (case Body resp of
                     Inl e \<Rightarrow> Inl (BodyRead e)
                   | Inr b \<Rightarrow>
                      (case Unmarshal env b of
                         Inl e \<Rightarrow> Inl (BodyDecode e)
                       | Inr v \<Rightarrow> Inr v))))"

subsection \<open>Example inputs\<close>

definition example_Config_A :: Config_A where
  "example_Config_A = \<lparr>Port = ''8080'', LogLevel = 0, AuthKey = ''service-a-secret-key''\<rparr>"

definition example_Config_B :: Config_B where
  "example_Config_B =
     \<lparr>Port = ''8081'', LogLevel = 0, ServiceAURL = ''http://service-a:8080'',
      ServiceAAuthKey = ''service-a-secret-key''\<rparr>"

definition example_Env :: Env where
  "example_Env =
     \<lparr>uuid_New = ''6f1c2a'', time_Now = (\<lambda>k. 1000 + int k), Format_RFC3339 = (\<lambda>t. ''T'')\<rparr>"

definition example_getenv :: "string \<Rightarrow> string" where
  "example_getenv name = (if name = ''AUTH_KEY'' then ''service-a-secret-key'' else '''')"

definition request_with_key :: Request where
  "request_with_key =
     \<lparr>Method = ''GET'', URL_Path = ''/greet'',
      Header = [''X-Auth-Key'' \<mapsto> [''service-a-secret-key'']],
      RemoteAddr = ''10.0.0.7:40312'', Ctx = serverContext\<rparr>"

definition request_without_key :: Request where
  "request_without_key =
     \<lparr>Method = ''GET'', URL_Path = ''/greet'', Header = Map.empty,
      RemoteAddr = ''10.0.0.7:40312'', Ctx = serverContext\<rparr>"

definition request_process :: Request where
  "request_process =
     \<lparr>Method = ''GET'', URL_Path = ''/process'', Header = Map.empty,
      RemoteAddr = ''10.0.0.7:40312'', Ctx = serverContext\<rparr>"

text \<open>An upstream that refuses the connection, and one that answers with a greeting.\<close>

definition Env_upstream_down :: Env_B where
  "Env_upstream_down =
     \<lparr>uuid_New = ''6f1c2a'', time_Now = (\<lambda>k. 1000 + int k), Format_RFC3339 = (\<lambda>t. ''T''),
      NewRequest_err = (\<lambda>u. None),
      client_Do = (\<lambda>q. Inl ''dial tcp: connection refused''),
      Unmarshal = (\<lambda>b. Inl ''unexpected end of JSON input'')\<rparr>"

definition Env_upstream_up :: Env_B where
  "Env_upstream_up =
     \<lparr>uuid_New = ''6f1c2a'', time_Now = (\<lambda>k. 1000 + int k), Format_RFC3339 = (\<lambda>t. ''T''),
      NewRequest_err = (\<lambda>u. None),
      client_Do = (\<lambda>q. Inr \<lparr>StatusCode = 200, Body = Inr ''greeting''\<rparr>),
      Unmarshal = (\<lambda>b. Inr \<lparr>Message = ''Hello from Service A!'', RequestID = ''a-77'',
                               Timestamp = 990\<rparr>)\<rparr>"

definition Env_upstream_404 :: Env_B where
  "Env_upstream_404 =
     \<lparr>uuid_New = ''6f1c2a'', time_Now = (\<lambda>k. 1000 + int k), Format_RFC3339 = (\<lambda>t. ''T''),
      NewRequest_err = (\<lambda>u. None),
      client_Do = (\<lambda>q. Inr \<lparr>StatusCode = 404, Body = Inr ''404 page not found''\<rparr>),
      Unmarshal = (\<lambda>b. Inl ''invalid character'')\<rparr>"

text \<open>A configuration with an empty secret, which \<^verbatim>\<open>main\<close> never builds.\<close>

definition Config_A_empty_secret :: Config_A where
  "Config_A_empty_secret = \<lparr>Port = ''8080'', LogLevel = 0, AuthKey = ''''\<rparr>"

section \<open>Properties\<close>

subsection \<open>The constant-time comparison decides equality\<close>

lemma word_xor_eq_0_iff: "(a :: 'a::len word) XOR b = 0 \<longleftrightarrow> a = b"
  by (metis xor.left_neutral xor.assoc xor_self_eq xor.right_neutral)

lemma xor_fold_eq_0_iff:
  "length x = length y \<Longrightarrow> xor_fold v x y = 0 \<longleftrightarrow> v = 0 \<and> x = y"
  by (induction v x y rule: xor_fold.induct) (auto simp: or_eq_0_iff word_xor_eq_0_iff)

lemma drop_bit_31_pred:
  fixes v :: byte
  assumes "v \<noteq> 0"
  shows "drop_bit 31 ((ucast v :: 32 word) - 1) = 0"
proof -
  let ?w = "ucast v :: 32 word"
  have lt: "unat v < 256" using unsigned_less [of v, where ?'a = nat] by simp
  have "unat ?w = take_bit 32 (unat v)" by (simp add: unsigned_ucast_eq)
  also have "\<dots> = unat v" using lt by (simp add: take_bit_nat_eq_self)
  finally have u: "unat ?w = unat v" .
  have "unat v \<noteq> 0" using assms by (simp add: unat_eq_zero)
  then have nz: "?w \<noteq> 0" using u by (metis unat_eq_zero)
  have "unat (?w - 1) < 2 ^ 31" using nz u lt by (simp add: unat_minus_one)
  then have "unat (drop_bit 31 (?w - 1)) = 0"
    by (simp only: unat_drop_bit_eq) (simp add: drop_bit_eq_div)
  then show ?thesis by (simp add: unat_eq_zero)
qed

lemma ConstantTimeByteEq_0: "ConstantTimeByteEq v 0 = (if v = 0 then 1 else 0)"
  by (simp add: ConstantTimeByteEq_def drop_bit_31_pred)

lemma of_char_byte_eq_iff: "(of_char c :: byte) = of_char d \<longleftrightarrow> c = d"
proof
  assume "(of_char c :: byte) = of_char d"
  then have "unat (of_nat (of_char c) :: byte) = unat (of_nat (of_char d) :: byte)"
    by (simp only: of_nat_of_char)
  then have "(of_char c :: nat) mod 256 = of_char d mod 256"
    by (simp add: unat_of_nat)
  then show "c = d" by simp
qed simp

lemma bytes_of_eq_iff: "bytes_of s = bytes_of t \<longleftrightarrow> s = t"
  unfolding bytes_of_def by (simp add: inj_map_eq_map inj_def of_char_byte_eq_iff)

lemma length_bytes_of: "length (bytes_of s) = length s"
  by (simp add: bytes_of_def)

lemma ConstantTimeCompare_iff:
  "ConstantTimeCompare (bytes_of s) (bytes_of t) = 1 \<longleftrightarrow> s = t"
proof (cases "length s = length t")
  case True
  then show ?thesis
    by (simp add: ConstantTimeCompare_def ConstantTimeByteEq_0 xor_fold_eq_0_iff
        bytes_of_eq_iff length_bytes_of)
next
  case False
  then show ?thesis by (auto simp: ConstantTimeCompare_def length_bytes_of)
qed

subsection \<open>The canonical form of the header keys in use\<close>

lemma canonical_X_Auth_Key: "CanonicalMIMEHeaderKey ''X-Auth-Key'' = ''X-Auth-Key''"
  by code_simp
lemma canonical_X_Request_ID: "CanonicalMIMEHeaderKey ''X-Request-ID'' = ''X-Request-Id''"
  by code_simp
lemma canonical_Content_Type: "CanonicalMIMEHeaderKey ''Content-Type'' = ''Content-Type''"
  by code_simp
lemma canonical_X_Content_Type_Options:
  "CanonicalMIMEHeaderKey ''X-Content-Type-Options'' = ''X-Content-Type-Options''"
  by code_simp

lemmas canonical_keys = canonical_X_Auth_Key canonical_X_Request_ID canonical_Content_Type
  canonical_X_Content_Type_Options

subsection \<open>The two branches of the middleware\<close>

lemma authMiddleware_accept:
  assumes "Header_Get (Header r) ''X-Auth-Key'' = AuthKey config"
  shows "authMiddleware config env next r st =
     next (r\<lparr>Ctx := WithValue (Ctx r) ''request_id'' (IString (uuid_New env))\<rparr>)
       (Log config LevelInfo ''Authentication successful''
          [slog_String ''request_id'' (uuid_New env),
           slog_String ''client_ip'' (RemoteAddr r),
           slog_String ''method'' (Method r),
           slog_String ''path'' (URL_Path r)]
          (Log config LevelInfo ''Authentication attempt''
             [slog_String ''request_id'' (uuid_New env),
              slog_String ''client_ip'' (RemoteAddr r),
              slog_String ''method'' (Method r),
              slog_String ''path'' (URL_Path r)] st))"
  using assms by (simp add: authMiddleware_def Let_def ConstantTimeCompare_iff)

lemma authMiddleware_reject:
  assumes "Header_Get (Header r) ''X-Auth-Key'' \<noteq> AuthKey config"
  shows "authMiddleware config env next r st =
     (let st' = Log config LevelWarn ''Authentication failed''
                  [slog_String ''request_id'' (uuid_New env),
                   slog_String ''client_ip'' (RemoteAddr r),
                   slog_String ''method'' (Method r),
                   slog_String ''path'' (URL_Path r),
                   slog_String ''auth_key_provided''
                     (maskAuthKey (Header_Get (Header r) ''X-Auth-Key''))]
                  (Log config LevelInfo ''Authentication attempt''
                     [slog_String ''request_id'' (uuid_New env),
                      slog_String ''client_ip'' (RemoteAddr r),
                      slog_String ''method'' (Method r),
                      slog_String ''path'' (URL_Path r)] st)
      in case http_Error ''Unauthorized'' 401 (rw st') of
           Inl p \<Rightarrow> (Panicked p, st')
         | Inr w \<Rightarrow> (Returned, st'\<lparr>rw := w\<rparr>))"
  using assms by (simp add: authMiddleware_def Let_def ConstantTimeCompare_iff)

subsection \<open>Writers, logs and the configuration of main\<close>

lemma Log_rw [simp]: "rw (Log config lvl m as st) = rw st"
  by (simp add: Log_def)

lemma Log_calls [simp]: "calls (Log config lvl m as st) = calls st"
  by (simp add: Log_def)

lemma Log_logs:
  "logs (Log config lvl m as st) =
     (if LogLevel config \<le> lvl then logs st @ [LogLine lvl m as] else logs st)"
  by (simp add: Log_def)

lemma main_Config_A_AuthKey: "AuthKey (main_Config_A getenv) \<noteq> ''''"
  by (simp add: main_Config_A_def Let_def)

lemma main_Config_A_LogLevel: "LogLevel (main_Config_A getenv) = LevelInfo"
  by (simp add: main_Config_A_def Let_def)

lemma http_Error_401_new:
  "http_Error msg 401 (newResponseWriter we) =
     Inr \<lparr>header = [''Content-Type'' \<mapsto> [''text/plain; charset=utf-8''],
                    ''X-Content-Type-Options'' \<mapsto> [''nosniff'']],
          informational = [],
          committed = Some (401, [''Content-Type'' \<mapsto> [''text/plain; charset=utf-8''],
                                  ''X-Content-Type-Options'' \<mapsto> [''nosniff'']]),
          written = (case we of None \<Rightarrow> [Text (msg @ [CHR 0x0A])] | Some e \<Rightarrow> []),
          writeErr = we\<rparr>"
  by (simp add: http_Error_def newResponseWriter_def Let_def WriteHeader_def Write_def
      bodyAllowedForStatus_def Header_Set_def canonical_keys split: option.splits)

lemma greet_unauthorized_aux:
  assumes "Header_Get (Header r) ''X-Auth-Key'' \<noteq> AuthKey config"
  shows "authMiddleware config env next r (newSt we) =
     (Returned,
      \<lparr>rw = \<lparr>header = [''Content-Type'' \<mapsto> [''text/plain; charset=utf-8''],
                    ''X-Content-Type-Options'' \<mapsto> [''nosniff'']],
          informational = [],
          committed = Some (401, [''Content-Type'' \<mapsto> [''text/plain; charset=utf-8''],
                                   ''X-Content-Type-Options'' \<mapsto> [''nosniff'']]),
          written = (case we of None \<Rightarrow> [Text (''Unauthorized'' @ [CHR 0x0A])] | Some e \<Rightarrow> []),
          writeErr = we\<rparr>,
       logs = logs (Log config LevelWarn ''Authentication failed''
                  [slog_String ''request_id'' (uuid_New env),
                   slog_String ''client_ip'' (RemoteAddr r),
                   slog_String ''method'' (Method r),
                   slog_String ''path'' (URL_Path r),
                   slog_String ''auth_key_provided''
                     (maskAuthKey (Header_Get (Header r) ''X-Auth-Key''))]
                  (Log config LevelInfo ''Authentication attempt''
                     [slog_String ''request_id'' (uuid_New env),
                      slog_String ''client_ip'' (RemoteAddr r),
                      slog_String ''method'' (Method r),
                      slog_String ''path'' (URL_Path r)] (newSt we))),
       calls = []\<rparr>)"
  using assms
  by (simp add: authMiddleware_reject Let_def newSt_def http_Error_401_new Log_def)

lemmas writer_defs = newSt_def newResponseWriter_def WriteHeader_def Write_def http_Error_def
  bodyAllowedForStatus_def
  Header_Set_def canonical_keys Let_def


lemma logs_carry_Log:
  "attr_request_ids as = [requestID] \<Longrightarrow> logs_carry requestID st \<Longrightarrow>
   logs_carry requestID (Log config lvl m as st)"
  by (simp add: logs_carry_def Log_def)

lemma logs_carry_rw [simp]: "logs_carry requestID (st\<lparr>rw := w\<rparr>) = logs_carry requestID st"
  by (simp add: logs_carry_def)

lemma logs_carry_calls [simp]:
  "logs_carry requestID (st\<lparr>calls := c\<rparr>) = logs_carry requestID st"
  by (simp add: logs_carry_def)

lemma logs_carry_newSt [simp]: "logs_carry requestID (newSt we)"
  by (simp add: logs_carry_def newSt_def)

lemma logs_carry_Nil [simp]: "logs_carry requestID \<lparr>rw = w, logs = [], calls = c\<rparr>"
  by (simp add: logs_carry_def)

lemma handleGreet_with_id:
  assumes "Value (Ctx r) ''request_id'' = Some (IString requestID)"
    and "rw st = newResponseWriter we"
  shows "fst (handleGreet config env r st) = Returned"
    and "committed (rw (snd (handleGreet config env r st))) =
           Some (200, [''Content-Type'' \<mapsto> [''application/json''],
                       ''X-Request-Id'' \<mapsto> [requestID]])"
    and "written (rw (snd (handleGreet config env r st))) =
           (case we of
              None \<Rightarrow> [JSON [(''message'', JString ''Hello from Service A!''),
                             (''request_id'', JString requestID),
                             (''timestamp'', JTime (time_Now env 0))]]
            | Some e \<Rightarrow> [])"
    and "calls (snd (handleGreet config env r st)) = calls st"
    and "logs_carry requestID st \<Longrightarrow> logs_carry requestID (snd (handleGreet config env r st))"
  using assms
  by (cases we; simp add: handleGreet_def assert_string_def writer_defs Encode_Response_def
        logs_carry_Log split: sum.splits prod.splits option.splits)+

lemma greet_authorized_aux:
  assumes "Header_Get (Header r) ''X-Auth-Key'' = AuthKey config"
  shows "fst (greet config env r (newSt we)) = Returned"
    and "committed (rw (snd (greet config env r (newSt we)))) =
           Some (200, [''Content-Type'' \<mapsto> [''application/json''],
                       ''X-Request-Id'' \<mapsto> [uuid_New env]])"
    and "written (rw (snd (greet config env r (newSt we)))) =
           (case we of
              None \<Rightarrow> [JSON [(''message'', JString ''Hello from Service A!''),
                             (''request_id'', JString (uuid_New env)),
                             (''timestamp'', JTime (time_Now env 0))]]
            | Some e \<Rightarrow> [])"
    and "calls (snd (greet config env r (newSt we))) = []"
    and "logs_carry (uuid_New env) (snd (greet config env r (newSt we)))"
  unfolding greet_def authMiddleware_accept [OF assms]
  by (subst handleGreet_with_id [where requestID = "uuid_New env" and we = we];
      simp add: Value_def WithValue_def newSt_def logs_carry_Log)+


subsection \<open>The greeting endpoint\<close>

lemma handleGreet_ignores_header:
  "handleGreet config env (r\<lparr>Header := h, Ctx := c\<rparr>) st =
   handleGreet config env (r\<lparr>Ctx := c\<rparr>) st"
  by (simp add: handleGreet_def cong: sum.case_cong)

lemma greet_missing_header_as_empty:
  assumes "Header r ''X-Auth-Key'' = None"
  shows "greet config env (r\<lparr>Header := (Header r)(''X-Auth-Key'' \<mapsto> [''''])\<rparr>) st =
         greet config env r st"
proof -
  let ?r2 = "r\<lparr>Header := (Header r)(''X-Auth-Key'' \<mapsto> [''''])\<rparr>"
  have g1: "Header_Get (Header r) ''X-Auth-Key'' = ''''"
    using assms by (simp add: Header_Get_def canonical_keys)
  have g2: "Header_Get (Header ?r2) ''X-Auth-Key'' = ''''"
    by (simp add: Header_Get_def canonical_keys)
  show ?thesis
  proof (cases "AuthKey config = ''''")
    case True
    then show ?thesis
      using authMiddleware_accept [of r config env "handleGreet config env" st]
        authMiddleware_accept [of ?r2 config env "handleGreet config env" st] g1 g2
      by (simp add: greet_def handleGreet_ignores_header)
  next
    case False
    then show ?thesis
      using authMiddleware_reject [of r config env "handleGreet config env" st]
        authMiddleware_reject [of ?r2 config env "handleGreet config env" st] g1 g2
      by (simp add: greet_def)
  qed
qed

lemma greet_unauthorized_obs:
  assumes "Header_Get (Header r) ''X-Auth-Key'' \<noteq> AuthKey config"
  shows "response_header (snd (greet config env r (newSt we))) ''X-Request-ID'' = None"
    and "\<forall>p \<in> set (body (snd (greet config env r (newSt we)))). \<not> is_JSON p"
    and "logs_carry (uuid_New env) (snd (greet config env r (newSt we)))"
  unfolding greet_def greet_unauthorized_aux [OF assms]
  by (simp_all add: response_header_def body_def canonical_keys logs_carry_def Log_def newSt_def
      split: option.splits)

text \<open>
  Claim C4. With the configuration that \<^verbatim>\<open>main\<close> builds (whose secret is never empty), a
  request to \<^verbatim>\<open>/greet\<close> whose \<^verbatim>\<open>X-Auth-Key\<close> header is missing or differs from the
  configured secret is answered with status 401, and the wrapped handler does not run:
  the outcome is the same whichever handler is wrapped, no JSON body is written (the body
  is the text line \<^verbatim>\<open>Unauthorized\<close>), and the only log lines are those of the middleware.
\<close>

theorem authMiddleware_rejects_bad_credential:
  assumes "Header r ''X-Auth-Key'' = None \<or>
           Header_Get (Header r) ''X-Auth-Key'' \<noteq> AuthKey (main_Config_A getenv)"
  shows "authMiddleware (main_Config_A getenv) env next r (newSt we) =
           greet (main_Config_A getenv) env r (newSt we) \<and>
         fst (greet (main_Config_A getenv) env r (newSt we)) = Returned \<and>
         status (snd (greet (main_Config_A getenv) env r (newSt we))) = Some 401 \<and>
         (\<forall>p \<in> set (body (snd (greet (main_Config_A getenv) env r (newSt we)))). \<not> is_JSON p) \<and>
         (we = None \<longrightarrow>
            body (snd (greet (main_Config_A getenv) env r (newSt we))) =
              [Text (''Unauthorized'' @ [CHR 0x0A])]) \<and>
         map line_message (logs (snd (greet (main_Config_A getenv) env r (newSt we)))) =
           [''Authentication attempt'', ''Authentication failed'']"
proof -
  have ne: "Header_Get (Header r) ''X-Auth-Key'' \<noteq> AuthKey (main_Config_A getenv)"
    using assms main_Config_A_AuthKey [of getenv]
    by (auto simp: Header_Get_def canonical_keys)
  show ?thesis
    unfolding greet_def greet_unauthorized_aux [OF ne]
    by (simp add: status_def body_def Log_logs main_Config_A_LogLevel LevelInfo_def LevelWarn_def
        newSt_def split: option.splits)
qed

theorem authMiddleware_rejects_bad_credential_witness:
  "Header request_without_key ''X-Auth-Key'' = None \<and>
   authMiddleware (main_Config_A example_getenv) example_Env (\<lambda>r st. (Panicked (InvalidWriteHeaderCode 0), st))
       request_without_key (newSt None) =
     greet (main_Config_A example_getenv) example_Env request_without_key (newSt None) \<and>
   fst (greet (main_Config_A example_getenv) example_Env request_without_key (newSt None)) = Returned \<and>
   status (snd (greet (main_Config_A example_getenv) example_Env request_without_key (newSt None))) =
     Some 401 \<and>
   body (snd (greet (main_Config_A example_getenv) example_Env request_without_key (newSt None))) =
     [Text (''Unauthorized'' @ [CHR 0x0A])]"
proof -
  have h: "Header request_without_key ''X-Auth-Key'' = None \<or>
           Header_Get (Header request_without_key) ''X-Auth-Key'' \<noteq>
             AuthKey (main_Config_A example_getenv)"
    by (simp add: request_without_key_def)
  show ?thesis
    using authMiddleware_rejects_bad_credential [OF h, of example_Env
        "\<lambda>r st. (Panicked (InvalidWriteHeaderCode 0), st)" None]
    by (simp add: request_without_key_def)
qed

text \<open>
  Claim C5. A request to \<^verbatim>\<open>/greet\<close> whose \<^verbatim>\<open>X-Auth-Key\<close> header equals the configured
  secret is answered with status 200; the \<^verbatim>\<open>X-Request-ID\<close> response header is the id
  generated for the request, and so is the \<^verbatim>\<open>request_id\<close> field of every JSON document
  in the body. When the writer accepts the write, the body is exactly the greeting.
\<close>

theorem greet_accepts_good_credential:
  assumes "Header_Get (Header r) ''X-Auth-Key'' = AuthKey config"
  shows "fst (greet config env r (newSt we)) = Returned \<and>
         status (snd (greet config env r (newSt we))) = Some 200 \<and>
         response_header (snd (greet config env r (newSt we))) ''X-Request-ID'' =
           Some [uuid_New env] \<and>
         (\<forall>p \<in> set (body (snd (greet config env r (newSt we)))).
              field p ''request_id'' = Some (JString (uuid_New env))) \<and>
         (we = None \<longrightarrow>
            body (snd (greet config env r (newSt we))) =
              [JSON [(''message'', JString ''Hello from Service A!''),
                     (''request_id'', JString (uuid_New env)),
                     (''timestamp'', JTime (time_Now env 0))]])"
  using greet_authorized_aux [OF assms, of env we]
  by (simp add: status_def response_header_def body_def canonical_keys split: option.splits)

theorem greet_accepts_good_credential_witness:
  "Header_Get (Header request_with_key) ''X-Auth-Key'' = AuthKey example_Config_A \<and>
   status (snd (greet example_Config_A example_Env request_with_key (newSt None))) = Some 200 \<and>
   response_header (snd (greet example_Config_A example_Env request_with_key (newSt None)))
     ''X-Request-ID'' = Some [''6f1c2a''] \<and>
   body (snd (greet example_Config_A example_Env request_with_key (newSt None))) =
     [JSON [(''message'', JString ''Hello from Service A!''),
            (''request_id'', JString ''6f1c2a''),
            (''timestamp'', JTime 1000)]]"
proof -
  have h: "Header_Get (Header request_with_key) ''X-Auth-Key'' = AuthKey example_Config_A"
    by (simp add: request_with_key_def example_Config_A_def Header_Get_def canonical_keys)
  show ?thesis
    using h greet_accepts_good_credential [OF h, of example_Env None]
    by (simp add: example_Env_def)
qed


text \<open>
  Claim C10. The middleware accepts a request exactly when the value it extracts from the
  \<^verbatim>\<open>X-Auth-Key\<close> header equals the configured secret: on equality it runs the wrapped
  handler, otherwise its outcome does not depend on the wrapped handler. A request
  without the header yields the empty string, and \<^verbatim>\<open>/greet\<close> treats it exactly as the same
  request with an empty header value. So with an empty configured secret a request
  without the header is accepted and the wrapped handler runs.
\<close>

theorem authMiddleware_accepts_by_byte_equality:
  "(Header_Get (Header r) ''X-Auth-Key'' = AuthKey config \<longrightarrow>
      authMiddleware config env next r st =
        next (r\<lparr>Ctx := WithValue (Ctx r) ''request_id'' (IString (uuid_New env))\<rparr>)
          (Log config LevelInfo ''Authentication successful''
             [slog_String ''request_id'' (uuid_New env),
              slog_String ''client_ip'' (RemoteAddr r),
              slog_String ''method'' (Method r),
              slog_String ''path'' (URL_Path r)]
             (Log config LevelInfo ''Authentication attempt''
                [slog_String ''request_id'' (uuid_New env),
                 slog_String ''client_ip'' (RemoteAddr r),
                 slog_String ''method'' (Method r),
                 slog_String ''path'' (URL_Path r)] st))) \<and>
   (Header_Get (Header r) ''X-Auth-Key'' \<noteq> AuthKey config \<longrightarrow>
      authMiddleware config env next r st = authMiddleware config env next' r st) \<and>
   (Header r ''X-Auth-Key'' = None \<longrightarrow>
      Header_Get (Header r) ''X-Auth-Key'' = '''' \<and>
      greet config env (r\<lparr>Header := (Header r)(''X-Auth-Key'' \<mapsto> [''''])\<rparr>) st =
        greet config env r st \<and>
      (AuthKey config = '''' \<longrightarrow>
         authMiddleware config env next r st =
           next (r\<lparr>Ctx := WithValue (Ctx r) ''request_id'' (IString (uuid_New env))\<rparr>)
             (Log config LevelInfo ''Authentication successful''
                [slog_String ''request_id'' (uuid_New env),
                 slog_String ''client_ip'' (RemoteAddr r),
                 slog_String ''method'' (Method r),
                 slog_String ''path'' (URL_Path r)]
                (Log config LevelInfo ''Authentication attempt''
                   [slog_String ''request_id'' (uuid_New env),
                    slog_String ''client_ip'' (RemoteAddr r),
                    slog_String ''method'' (Method r),
                    slog_String ''path'' (URL_Path r)] st))))"
proof (intro conjI impI)
  assume "Header_Get (Header r) ''X-Auth-Key'' = AuthKey config"
  then show "authMiddleware config env next r st =
        next (r\<lparr>Ctx := WithValue (Ctx r) ''request_id'' (IString (uuid_New env))\<rparr>)
          (Log config LevelInfo ''Authentication successful''
             [slog_String ''request_id'' (uuid_New env),
              slog_String ''client_ip'' (RemoteAddr r),
              slog_String ''method'' (Method r),
              slog_String ''path'' (URL_Path r)]
             (Log config LevelInfo ''Authentication attempt''
                [slog_String ''request_id'' (uuid_New env),
                 slog_String ''client_ip'' (RemoteAddr r),
                 slog_String ''method'' (Method r),
                 slog_String ''path'' (URL_Path r)] st))"
    by (rule authMiddleware_accept)
next
  assume "Header_Get (Header r) ''X-Auth-Key'' \<noteq> AuthKey config"
  then show "authMiddleware config env next r st = authMiddleware config env next' r st"
    by (simp add: authMiddleware_reject)
next
  assume "Header r ''X-Auth-Key'' = None"
  then show "Header_Get (Header r) ''X-Auth-Key'' = ''''"
    by (simp add: Header_Get_def canonical_keys)
next
  assume "Header r ''X-Auth-Key'' = None"
  then show "greet config env (r\<lparr>Header := (Header r)(''X-Auth-Key'' \<mapsto> [''''])\<rparr>) st =
        greet config env r st"
    by (rule greet_missing_header_as_empty)
next
  assume "Header r ''X-Auth-Key'' = None" and "AuthKey config = ''''"
  then have "Header_Get (Header r) ''X-Auth-Key'' = AuthKey config"
    by (simp add: Header_Get_def canonical_keys)
  then show "authMiddleware config env next r st =
           next (r\<lparr>Ctx := WithValue (Ctx r) ''request_id'' (IString (uuid_New env))\<rparr>)
             (Log config LevelInfo ''Authentication successful''
                [slog_String ''request_id'' (uuid_New env),
                 slog_String ''client_ip'' (RemoteAddr r),
                 slog_String ''method'' (Method r),
                 slog_String ''path'' (URL_Path r)]
                (Log config LevelInfo ''Authentication attempt''
                   [slog_String ''request_id'' (uuid_New env),
                    slog_String ''client_ip'' (RemoteAddr r),
                    slog_String ''method'' (Method r),
                    slog_String ''path'' (URL_Path r)] st))"
    by (rule authMiddleware_accept)
qed

theorem authMiddleware_accepts_by_byte_equality_witness:
  "Header request_without_key ''X-Auth-Key'' = None \<and>
   AuthKey Config_A_empty_secret = '''' \<and>
   fst (greet Config_A_empty_secret example_Env request_without_key (newSt None)) = Returned \<and>
   status (snd (greet Config_A_empty_secret example_Env request_without_key (newSt None))) =
     Some 200 \<and>
   body (snd (greet Config_A_empty_secret example_Env request_without_key (newSt None))) =
     [JSON [(''message'', JString ''Hello from Service A!''),
            (''request_id'', JString ''6f1c2a''),
            (''timestamp'', JTime 1000)]]"
proof -
  have h1: "Header request_without_key ''X-Auth-Key'' = None"
    by (simp add: request_without_key_def)
  have h2: "AuthKey Config_A_empty_secret = ''''"
    by (simp add: Config_A_empty_secret_def)
  have run: "greet Config_A_empty_secret example_Env request_without_key (newSt None) =
     handleGreet Config_A_empty_secret example_Env
       (request_without_key\<lparr>Ctx := WithValue (Ctx request_without_key) ''request_id''
           (IString (uuid_New example_Env))\<rparr>)
       (Log Config_A_empty_secret LevelInfo ''Authentication successful''
                [slog_String ''request_id'' (uuid_New example_Env),
                 slog_String ''client_ip'' (RemoteAddr request_without_key),
                 slog_String ''method'' (Method request_without_key),
                 slog_String ''path'' (URL_Path request_without_key)]
                (Log Config_A_empty_secret LevelInfo ''Authentication attempt''
                   [slog_String ''request_id'' (uuid_New example_Env),
                    slog_String ''client_ip'' (RemoteAddr request_without_key),
                    slog_String ''method'' (Method request_without_key),
                    slog_String ''path'' (URL_Path request_without_key)] (newSt None)))"
    unfolding greet_def
    using authMiddleware_accepts_by_byte_equality
      [where r = request_without_key and config = Config_A_empty_secret and env = example_Env
         and st = "newSt None" and ?next = "handleGreet Config_A_empty_secret example_Env"]
      h1 h2
    by simp
  show ?thesis
    unfolding run
    using h1 h2
    by (simp add: handleGreet_def assert_string_def Value_def WithValue_def writer_defs
        Encode_Response_def Log_def status_def body_def example_Env_def
        request_without_key_def Config_A_empty_secret_def LevelInfo_def)
qed

subsection \<open>The health handler\<close>

lemma Encode_status_health:
  "Encode_status [(''status'', a), (''timestamp'', b), (''request_id'', c), (''server_port'', d)] =
     JSON [(''request_id'', JString c), (''server_port'', JString d),
           (''status'', JString a), (''timestamp'', JString b)]"
  by (simp add: Encode_status_def less_eq_char_def less_char_def)

lemma handleHealth_aux:
  shows "fst (handleHealth config env r (newSt we)) = Returned"
    and "committed (rw (snd (handleHealth config env r (newSt we)))) =
           Some (200, [''Content-Type'' \<mapsto> [''application/json'']])"
    and "written (rw (snd (handleHealth config env r (newSt we)))) =
           (case we of
              None \<Rightarrow> [JSON [(''request_id'', JString (uuid_New env)),
                             (''server_port'', JString (Port config)),
                             (''status'', JString ''healthy''),
                             (''timestamp'', JString (Format_RFC3339 env (time_Now env 1)))]]
            | Some e \<Rightarrow> [])"
    and "calls (snd (handleHealth config env r st)) = calls st"
    and "logs_carry (uuid_New env) (snd (handleHealth config env r (newSt we)))"
  by (cases we; simp add: handleHealth_def writer_defs Encode_status_health logs_carry_Log
        split: sum.splits)+

lemma handleHealth_reads:
  "handleHealth config env (r\<lparr>Header := h, Ctx := c\<rparr>) st = handleHealth config env r st"
  "handleHealth config env r st =
     handleHealth \<lparr>Port = Port config, LogLevel = LogLevel config\<rparr> env r st"
  by (simp_all add: handleHealth_def Log_def Let_def split: sum.splits)

text \<open>
  Claim C8. On either service \<^verbatim>\<open>/health\<close> answers with status 200; when the writer accepts
  the write the body is the status document with the id generated for this request, the
  formatted current time and the configured port. The handler dispatches no outbound
  request, and it performs no authentication: its result does not depend on the headers
  or the context of the request, nor on anything in the configuration but the port and
  the log level.
\<close>

theorem handleHealth_reports_liveness:
  "fst (handleHealth config env r (newSt we)) = Returned \<and>
   status (snd (handleHealth config env r (newSt we))) = Some 200 \<and>
   (we = None \<longrightarrow>
      body (snd (handleHealth config env r (newSt we))) =
        [JSON [(''request_id'', JString (uuid_New env)),
               (''server_port'', JString (Port config)),
               (''status'', JString ''healthy''),
               (''timestamp'', JString (Format_RFC3339 env (time_Now env 1)))]]) \<and>
   calls (snd (handleHealth config env r st)) = calls st \<and>
   handleHealth config env (r\<lparr>Header := h, Ctx := c\<rparr>) st = handleHealth config env r st \<and>
   handleHealth \<lparr>Port = Port config, LogLevel = LogLevel config\<rparr> env r st =
     handleHealth config env r st"
  by (simp add: handleHealth_aux handleHealth_reads(1) handleHealth_reads(2) [symmetric]
      status_def body_def split: option.splits)

theorem handleHealth_reports_liveness_witness:
  "status (snd (handleHealth example_Config_A example_Env request_without_key (newSt None))) =
     Some 200 \<and>
   body (snd (handleHealth example_Config_A example_Env request_without_key (newSt None))) =
     [JSON [(''request_id'', JString ''6f1c2a''), (''server_port'', JString ''8080''),
            (''status'', JString ''healthy''), (''timestamp'', JString ''T'')]] \<and>
   status (snd (handleHealth example_Config_B Env_upstream_down request_without_key (newSt None))) =
     Some 200 \<and>
   body (snd (handleHealth example_Config_B Env_upstream_down request_without_key (newSt None))) =
     [JSON [(''request_id'', JString ''6f1c2a''), (''server_port'', JString ''8081''),
            (''status'', JString ''healthy''), (''timestamp'', JString ''T'')]] \<and>
   calls (snd (handleHealth example_Config_B Env_upstream_down request_without_key (newSt None))) = []"
  using handleHealth_reports_liveness [where config = example_Config_A and env = example_Env
      and r = request_without_key and we = None and st = "newSt None"]
    handleHealth_reports_liveness [where config = example_Config_B and env = Env_upstream_down
      and r = request_without_key and we = None and st = "newSt None"]
  by (simp add: example_Config_A_def example_Config_B_def example_Env_def Env_upstream_down_def
      newSt_def)

subsection \<open>The process endpoint\<close>

lemma handleError_without_id:
  "Value (Ctx r) ''request_id'' = None \<Longrightarrow>
   handleError config r err logMessage statusCode st = (Panicked (InterfaceConversion None), st)"
  by (simp add: handleError_def assert_string_def)

lemma handleProcess_error_aux:
  assumes "outbound_call config env r = Inl e"
    and "Value (Ctx r) ''request_id'' = None"
  shows "fst (handleProcess config env r st) = Panicked (InterfaceConversion None)"
    and "rw (snd (handleProcess config env r st)) = rw st"
  using assms
  by (auto simp: handleProcess_def outbound_call_def outbound_request_def Let_def
      handleError_without_id split: option.splits sum.splits if_splits)

lemma outbound_call_InrD:
  assumes "outbound_call config env r = Inr v"
  shows "NewRequest_err env (ServiceAURL config @ ''/greet'') = None \<and>
         (\<exists>resp b. client_Do env (outbound_request config env r) = Inr resp \<and>
            StatusCode resp = 200 \<and> Body resp = Inr b \<and> Unmarshal env b = Inr v)"
  using assms
  by (auto simp: outbound_call_def split: option.splits sum.splits if_splits)

lemma handleProcess_success_aux:
  assumes "outbound_call config env r = Inr v"
  shows "fst (handleProcess config env r (newSt we)) = Returned"
    and "committed (rw (snd (handleProcess config env r (newSt we)))) =
           Some (200, [''Content-Type'' \<mapsto> [''application/json''],
                       ''X-Request-Id'' \<mapsto> [uuid_New env]])"
    and "written (rw (snd (handleProcess config env r (newSt we)))) =
           (case we of
              None \<Rightarrow> [JSON [(''service_a_message'', JString (Message v)),
                             (''service_b_message'', JString ''Hello from Service B!''),
                             (''request_id'', JString (uuid_New env)),
                             (''timestamp'', JTime (time_Now env 1))]]
            | Some e \<Rightarrow> [])"
    and "calls (snd (handleProcess config env r (newSt we))) = [outbound_request config env r]"
    and "logs_carry (uuid_New env) (snd (handleProcess config env r (newSt we)))"
proof -
  from outbound_call_InrD [OF assms] obtain resp b where
    h: "NewRequest_err env (ServiceAURL config @ ''/greet'') = None"
       "client_Do env (outbound_request config env r) = Inr resp"
       "StatusCode resp = 200" "Body resp = Inr b" "Unmarshal env b = Inr v"
    by blast
  have req: "\<lparr>out_Method = ''GET'', out_URL = ServiceAURL config @ ''/greet'',
       out_Header = [''X-Auth-Key'' \<mapsto> [ServiceAAuthKey config], ''X-Request-Id'' \<mapsto> [uuid_New env]],
       out_Ctx = WithValue (Ctx r) ''request_id'' (IString (uuid_New env))\<rparr> =
       outbound_request config env r"
    by (simp add: outbound_request_def Header_Set_def canonical_keys)
  show "fst (handleProcess config env r (newSt we)) = Returned"
    using h by (cases we) (simp_all add: handleProcess_def writer_defs req Encode_Response_B_def)
  show "committed (rw (snd (handleProcess config env r (newSt we)))) =
           Some (200, [''Content-Type'' \<mapsto> [''application/json''],
                       ''X-Request-Id'' \<mapsto> [uuid_New env]])"
    using h by (cases we) (simp_all add: handleProcess_def writer_defs req Encode_Response_B_def)
  show "written (rw (snd (handleProcess config env r (newSt we)))) =
           (case we of
              None \<Rightarrow> [JSON [(''service_a_message'', JString (Message v)),
                             (''service_b_message'', JString ''Hello from Service B!''),
                             (''request_id'', JString (uuid_New env)),
                             (''timestamp'', JTime (time_Now env 1))]]
            | Some e \<Rightarrow> [])"
    using h by (cases we) (simp_all add: handleProcess_def writer_defs req Encode_Response_B_def)
  show "calls (snd (handleProcess config env r (newSt we))) = [outbound_request config env r]"
    using h by (cases we) (simp_all add: handleProcess_def writer_defs req Encode_Response_B_def)
  show "logs_carry (uuid_New env) (snd (handleProcess config env r (newSt we)))"
    using h by (cases we)
      (simp_all add: handleProcess_def writer_defs req Encode_Response_B_def logs_carry_Log)
qed

text \<open>
  Claim C3. \<^verbatim>\<open>handleError\<close> reads the request id from the context of the inbound request by
  an unchecked assertion, and \<^verbatim>\<open>handleProcess\<close> never attaches its context to that
  request. So, for an inbound request whose context holds no \<^verbatim>\<open>request_id\<close> (every request
  the server hands over), on every path where the outbound call fails (at whichever
  stage) the asserted value is \<^verbatim>\<open>nil\<close>, the handler panics, and the response writer is left
  as it was: no status and no error body are written.
\<close>

theorem handleProcess_error_path_panics:
  assumes "outbound_call config env r = Inl e"
    and "Value (Ctx r) ''request_id'' = None"
  shows "fst (handleProcess config env r st) = Panicked (InterfaceConversion None) \<and>
         rw (snd (handleProcess config env r st)) = rw st \<and>
         status (snd (handleProcess config env r (newSt we))) = None \<and>
         body (snd (handleProcess config env r (newSt we))) = []"
  using handleProcess_error_aux [OF assms]
  by (simp add: status_def body_def newSt_def newResponseWriter_def)

theorem handleProcess_error_path_panics_witness:
  "outbound_call example_Config_B Env_upstream_404 request_process = Inl (NonSuccessStatus 404) \<and>
   Value (Ctx request_process) ''request_id'' = None \<and>
   fst (handleProcess example_Config_B Env_upstream_404 request_process (newSt None)) =
     Panicked (InterfaceConversion None) \<and>
   status (snd (handleProcess example_Config_B Env_upstream_404 request_process (newSt None))) = None \<and>
   body (snd (handleProcess example_Config_B Env_upstream_404 request_process (newSt None))) = []"
proof -
  have h1: "outbound_call example_Config_B Env_upstream_404 request_process =
              Inl (NonSuccessStatus 404)"
    by (simp add: outbound_call_def Env_upstream_404_def)
  have h2: "Value (Ctx request_process) ''request_id'' = None"
    by (simp add: Value_def request_process_def serverContext_def)
  show ?thesis
    using h1 h2 handleProcess_error_path_panics [OF h1 h2, of "newSt None" None]
    by simp
qed

text \<open>
  Claim C1, evaluated where the upstream refuses the connection. The claim promises
  status 503 with the log message as body; the handler panics in \<^verbatim>\<open>handleError\<close> and leaves
  the response without status and without body.
\<close>

theorem handleProcess_upstream_down_writes_no_503:
  "outbound_call example_Config_B Env_upstream_down request_process =
     Inl (NetworkDispatch ''dial tcp: connection refused'') \<and>
   fst (handleProcess example_Config_B Env_upstream_down request_process (newSt None)) =
     Panicked (InterfaceConversion None) \<and>
   status (snd (handleProcess example_Config_B Env_upstream_down request_process (newSt None))) =
     None \<and>
   body (snd (handleProcess example_Config_B Env_upstream_down request_process (newSt None))) = []"
proof -
  have h1: "outbound_call example_Config_B Env_upstream_down request_process =
              Inl (NetworkDispatch ''dial tcp: connection refused'')"
    by (simp add: outbound_call_def Env_upstream_down_def)
  have h2: "Value (Ctx request_process) ''request_id'' = None"
    by (simp add: Value_def request_process_def serverContext_def)
  show ?thesis
    using h1 handleProcess_error_aux [OF h1 h2, of "newSt None"]
    by (simp add: status_def body_def newSt_def newResponseWriter_def)
qed

text \<open>
  What \<^verbatim>\<open>handleError\<close> does once the request it is given carries the id: it returns after
  writing the status it was passed and the log message as a line of text.
\<close>

lemma handleError_with_id:
  assumes "Value (Ctx r) ''request_id'' = Some (IString requestID)"
    and "200 \<le> statusCode" and "statusCode \<le> 999" and "statusCode \<noteq> 204" and "statusCode \<noteq> 304"
  shows "fst (handleError config r err logMessage statusCode (newSt None)) = Returned"
    and "status (snd (handleError config r err logMessage statusCode (newSt None))) =
           Some statusCode"
    and "body (snd (handleError config r err logMessage statusCode (newSt None))) =
           [Text (logMessage @ [CHR 0x0A])]"
  using assms
  by (simp_all add: handleError_def assert_string_def writer_defs status_def body_def)

text \<open>
  Claim C7. When the outbound call succeeds (the upstream answers 200, its body is read
  and decodes into a greeting), \<^verbatim>\<open>/process\<close> answers with status 200 after exactly one
  outbound request; every JSON document in its body holds the upstream message as
  \<^verbatim>\<open>service_a_message\<close>, the fixed text \<^verbatim>\<open>Hello from Service B!\<close> as \<^verbatim>\<open>service_b_message\<close>,
  the id generated for the request and the timestamp; and when the writer accepts the
  write, the body is exactly that one document.
\<close>

theorem handleProcess_combines_on_success:
  assumes "outbound_call config env r = Inr v"
  shows "fst (handleProcess config env r (newSt we)) = Returned \<and>
         status (snd (handleProcess config env r (newSt we))) = Some 200 \<and>
         calls (snd (handleProcess config env r (newSt we))) = [outbound_request config env r] \<and>
         (\<forall>p \<in> set (body (snd (handleProcess config env r (newSt we)))).
            field p ''service_a_message'' = Some (JString (Message v)) \<and>
            field p ''service_b_message'' = Some (JString ''Hello from Service B!'') \<and>
            field p ''request_id'' = Some (JString (uuid_New env)) \<and>
            field p ''timestamp'' = Some (JTime (time_Now env 1))) \<and>
         (we = None \<longrightarrow>
            body (snd (handleProcess config env r (newSt we))) =
              [JSON [(''service_a_message'', JString (Message v)),
                     (''service_b_message'', JString ''Hello from Service B!''),
                     (''request_id'', JString (uuid_New env)),
                     (''timestamp'', JTime (time_Now env 1))]])"
  using handleProcess_success_aux [OF assms, of we]
  by (simp add: status_def body_def split: option.splits)

theorem handleProcess_combines_on_success_witness:
  "outbound_call example_Config_B Env_upstream_up request_process =
     Inr \<lparr>Message = ''Hello from Service A!'', RequestID = ''a-77'', Timestamp = 990\<rparr> \<and>
   status (snd (handleProcess example_Config_B Env_upstream_up request_process (newSt None))) =
     Some 200 \<and>
   body (snd (handleProcess example_Config_B Env_upstream_up request_process (newSt None))) =
     [JSON [(''service_a_message'', JString ''Hello from Service A!''),
            (''service_b_message'', JString ''Hello from Service B!''),
            (''request_id'', JString ''6f1c2a''),
            (''timestamp'', JTime 1001)]]"
proof -
  have h: "outbound_call example_Config_B Env_upstream_up request_process =
     Inr \<lparr>Message = ''Hello from Service A!'', RequestID = ''a-77'', Timestamp = 990\<rparr>"
    by (simp add: outbound_call_def Env_upstream_up_def)
  show ?thesis
    using h handleProcess_combines_on_success [OF h, of None]
    by (simp add: Env_upstream_up_def)
qed

subsection \<open>The correlation id\<close>

text \<open>
  Claim C2 fails as stated: the 401 response to a request without credential carries no
  \<^verbatim>\<open>X-Request-ID\<close> header.
\<close>

theorem rejected_request_lacks_request_id_header:
  "status (snd (greet example_Config_A example_Env request_without_key (newSt None))) = Some 401 \<and>
   response_header (snd (greet example_Config_A example_Env request_without_key (newSt None)))
     ''X-Request-ID'' \<noteq> Some [uuid_New example_Env]"
proof -
  have ne: "Header_Get (Header request_without_key) ''X-Auth-Key'' \<noteq> AuthKey example_Config_A"
    by (simp add: request_without_key_def example_Config_A_def Header_Get_def)
  show ?thesis
    unfolding greet_def greet_unauthorized_aux [OF ne]
    by (simp add: status_def response_header_def canonical_keys)
qed

text \<open>
  Claim C2, amended. Wherever a response has a JSON body (the 200 responses of \<^verbatim>\<open>/greet\<close>,
  \<^verbatim>\<open>/process\<close> and \<^verbatim>\<open>/health\<close>), the \<^verbatim>\<open>request_id\<close> field of the body is the id generated for
  that request, and every log line of the request carries that same id. The
  \<^verbatim>\<open>X-Request-ID\<close> response header is set, to the same id, on the 200 responses of \<^verbatim>\<open>/greet\<close>
  and \<^verbatim>\<open>/process\<close> only; the 401 response of \<^verbatim>\<open>/greet\<close> and the responses of \<^verbatim>\<open>/health\<close>
  carry no \<^verbatim>\<open>X-Request-ID\<close> header.
\<close>

theorem correlation_id_where_carried:
  "(Header_Get (Header r) ''X-Auth-Key'' = AuthKey configA \<longrightarrow>
      response_header (snd (greet configA env r (newSt we))) ''X-Request-ID'' =
        Some [uuid_New env] \<and>
      (\<forall>p \<in> set (body (snd (greet configA env r (newSt we)))).
         field p ''request_id'' = Some (JString (uuid_New env))) \<and>
      logs_carry (uuid_New env) (snd (greet configA env r (newSt we)))) \<and>
   (Header_Get (Header r) ''X-Auth-Key'' \<noteq> AuthKey configA \<longrightarrow>
      response_header (snd (greet configA env r (newSt we))) ''X-Request-ID'' = None \<and>
      (\<forall>p \<in> set (body (snd (greet configA env r (newSt we)))). \<not> is_JSON p) \<and>
      logs_carry (uuid_New env) (snd (greet configA env r (newSt we)))) \<and>
   (outbound_call configB envB r = Inr v \<longrightarrow>
      response_header (snd (handleProcess configB envB r (newSt we))) ''X-Request-ID'' =
        Some [uuid_New envB] \<and>
      (\<forall>p \<in> set (body (snd (handleProcess configB envB r (newSt we)))).
         field p ''request_id'' = Some (JString (uuid_New envB))) \<and>
      logs_carry (uuid_New envB) (snd (handleProcess configB envB r (newSt we)))) \<and>
   response_header (snd (handleHealth config env r (newSt we))) ''X-Request-ID'' = None \<and>
   (\<forall>p \<in> set (body (snd (handleHealth config env r (newSt we)))).
      field p ''request_id'' = Some (JString (uuid_New env))) \<and>
   logs_carry (uuid_New env) (snd (handleHealth config env r (newSt we)))"
proof (intro conjI impI)
  assume a: "Header_Get (Header r) ''X-Auth-Key'' = AuthKey configA"
  show "response_header (snd (greet configA env r (newSt we))) ''X-Request-ID'' =
        Some [uuid_New env]"
    by (simp add: response_header_def greet_authorized_aux(2) [OF a] canonical_keys)
  show "\<forall>p \<in> set (body (snd (greet configA env r (newSt we)))).
         field p ''request_id'' = Some (JString (uuid_New env))"
    by (simp add: body_def greet_authorized_aux(3) [OF a] split: option.splits)
  show "logs_carry (uuid_New env) (snd (greet configA env r (newSt we)))"
    by (rule greet_authorized_aux(5) [OF a])
next
  assume a: "Header_Get (Header r) ''X-Auth-Key'' \<noteq> AuthKey configA"
  show "response_header (snd (greet configA env r (newSt we))) ''X-Request-ID'' = None"
    by (rule greet_unauthorized_obs(1) [OF a])
  show "\<forall>p \<in> set (body (snd (greet configA env r (newSt we)))). \<not> is_JSON p"
    by (rule greet_unauthorized_obs(2) [OF a])
  show "logs_carry (uuid_New env) (snd (greet configA env r (newSt we)))"
    by (rule greet_unauthorized_obs(3) [OF a])
next
  assume a: "outbound_call configB envB r = Inr v"
  show "response_header (snd (handleProcess configB envB r (newSt we))) ''X-Request-ID'' =
        Some [uuid_New envB]"
    by (simp add: response_header_def handleProcess_success_aux(2) [OF a] canonical_keys)
  show "\<forall>p \<in> set (body (snd (handleProcess configB envB r (newSt we)))).
         field p ''request_id'' = Some (JString (uuid_New envB))"
    by (simp add: body_def handleProcess_success_aux(3) [OF a] split: option.splits)
  show "logs_carry (uuid_New envB) (snd (handleProcess configB envB r (newSt we)))"
    by (rule handleProcess_success_aux(5) [OF a])
next
  show "response_header (snd (handleHealth config env r (newSt we))) ''X-Request-ID'' = None"
    by (simp add: response_header_def handleHealth_aux(2) canonical_keys)
  show "\<forall>p \<in> set (body (snd (handleHealth config env r (newSt we)))).
      field p ''request_id'' = Some (JString (uuid_New env))"
    by (simp add: body_def handleHealth_aux(3) split: option.splits)
  show "logs_carry (uuid_New env) (snd (handleHealth config env r (newSt we)))"
    by (rule handleHealth_aux(5))
qed

theorem correlation_id_where_carried_witness:
  "Header_Get (Header request_with_key) ''X-Auth-Key'' = AuthKey example_Config_A \<and>
   response_header (snd (greet example_Config_A example_Env request_with_key (newSt None)))
     ''X-Request-ID'' = Some [''6f1c2a''] \<and>
   outbound_call example_Config_B Env_upstream_up request_with_key =
     Inr \<lparr>Message = ''Hello from Service A!'', RequestID = ''a-77'', Timestamp = 990\<rparr> \<and>
   response_header (snd (handleProcess example_Config_B Env_upstream_up request_with_key (newSt None)))
     ''X-Request-ID'' = Some [''6f1c2a''] \<and>
   response_header (snd (handleHealth example_Config_B example_Env request_with_key (newSt None)))
     ''X-Request-ID'' = None \<and>
   logs_carry ''6f1c2a''
     (snd (handleHealth example_Config_B example_Env request_with_key (newSt None)))"
proof -
  have h1: "Header_Get (Header request_with_key) ''X-Auth-Key'' = AuthKey example_Config_A"
    by (simp add: request_with_key_def example_Config_A_def Header_Get_def canonical_keys)
  have h2: "outbound_call example_Config_B Env_upstream_up request_with_key =
     Inr \<lparr>Message = ''Hello from Service A!'', RequestID = ''a-77'', Timestamp = 990\<rparr>"
    by (simp add: outbound_call_def Env_upstream_up_def)
  show ?thesis
    using h1 h2
      correlation_id_where_carried [where r = request_with_key and configA = example_Config_A
        and env = example_Env and we = None and configB = example_Config_B
        and envB = Env_upstream_up and config = example_Config_B
        and v = "\<lparr>Message = ''Hello from Service A!'', RequestID = ''a-77'', Timestamp = 990\<rparr>"]
    by (simp add: example_Env_def Env_upstream_up_def)
qed

subsection \<open>Masking\<close>

lemma maskAuthKey_short: "length key \<le> 4 \<Longrightarrow> maskAuthKey key = ''****''"
  by (simp add: maskAuthKey_def)

lemma maskAuthKey_long_length: "length key > 4 \<Longrightarrow> length (maskAuthKey key) = 8"
  by (simp add: maskAuthKey_def)

lemma maskAuthKey_long_prefix:
  "length key > 4 \<Longrightarrow> take 2 (maskAuthKey key) = take 2 key"
  by (simp add: maskAuthKey_def)

lemma maskAuthKey_long_middle:
  "length key > 4 \<Longrightarrow> take 4 (drop 2 (maskAuthKey key)) = ''****''"
  by (simp add: maskAuthKey_def)

lemma maskAuthKey_long_suffix:
  "length key > 4 \<Longrightarrow> drop 6 (maskAuthKey key) = drop (length key - 2) key"
  by (simp add: maskAuthKey_def)

text \<open>
  Claim C6. A key of at most 4 bytes is masked to the fixed 4-character string
  \<^verbatim>\<open>****\<close>. A longer key is masked to 8 characters: its own first two, the fixed mask
  \<^verbatim>\<open>****\<close>, and its own last two. Nothing else of the key reaches the result: two long
  keys that agree on their first two and last two bytes have the same mask.
\<close>

theorem maskAuthKey_spec:
  "(length key \<le> 4 \<longrightarrow> maskAuthKey key = ''****'') \<and>
   (length key > 4 \<longrightarrow>
      length (maskAuthKey key) = 8 \<and>
      take 2 (maskAuthKey key) = take 2 key \<and>
      take 4 (drop 2 (maskAuthKey key)) = ''****'' \<and>
      drop 6 (maskAuthKey key) = drop (length key - 2) key \<and>
      (\<forall>key'. length key' > 4 \<and> take 2 key' = take 2 key \<and>
           drop (length key' - 2) key' = drop (length key - 2) key
           \<longrightarrow> maskAuthKey key' = maskAuthKey key))"
proof (intro conjI impI allI)
  assume "length key \<le> 4"
  then show "maskAuthKey key = ''****''" by (rule maskAuthKey_short)
next
  assume "4 < length key"
  then show "length (maskAuthKey key) = 8" by (rule maskAuthKey_long_length)
next
  assume "4 < length key"
  then show "take 2 (maskAuthKey key) = take 2 key" by (rule maskAuthKey_long_prefix)
next
  assume "4 < length key"
  then show "take 4 (drop 2 (maskAuthKey key)) = ''****''" by (rule maskAuthKey_long_middle)
next
  assume "4 < length key"
  then show "drop 6 (maskAuthKey key) = drop (length key - 2) key"
    by (rule maskAuthKey_long_suffix)
next
  fix key'
  assume "4 < length key"
    and "4 < length key' \<and> take 2 key' = take 2 key \<and>
         drop (length key' - 2) key' = drop (length key - 2) key"
  then show "maskAuthKey key' = maskAuthKey key" by (simp add: maskAuthKey_def)
qed

theorem maskAuthKey_spec_witness:
  "maskAuthKey ''abc'' = ''****'' \<and> maskAuthKey ''abcd'' = ''****'' \<and>
   maskAuthKey ''service-a-secret-key'' = ''se****ey'' \<and>
   maskAuthKey ''seXYZey'' = maskAuthKey ''service-a-secret-key''"
  using maskAuthKey_spec [of "''abc''"] maskAuthKey_spec [of "''abcd''"]
    maskAuthKey_spec [of "''service-a-secret-key''", THEN conjunct2, rule_format, THEN conjunct2,
      THEN conjunct2, THEN conjunct2, THEN conjunct2, rule_format, of "''seXYZey''"]
  by (simp add: maskAuthKey_def)

end
